theory Spec2Isabelle
  imports Complex_Main
begin

section \<open>Python values, exceptions and the observable trace\<close>

text \<open>
  The module \<^verbatim>\<open>pubchem_smiles_automation.py\<close> works on the values that
  \<^verbatim>\<open>response.json()\<close> hands back: \<^verbatim>\<open>None\<close>, booleans, integers, floats, strings,
  lists and dictionaries with string keys. A dictionary is an association list that is
  read with \<open>map_of\<close>. A Python \<^verbatim>\<open>str\<close> is a \<open>string\<close> whose characters are the code
  points below 256; a finite float is the rational it denotes.
\<close>

datatype pyval =
    VNone
  | VBool bool
  | VInt int
  | VFloat rat
  | VStr string
  | VList "pyval list"
  | VDict "(string \<times> pyval) list"

text \<open>
  The exceptions that the module can meet. The first four are the subclasses of
  \<^verbatim>\<open>requests.exceptions.RequestException\<close> raised by \<^verbatim>\<open>requests.get\<close>,
  \<^verbatim>\<open>raise_for_status\<close> and \<^verbatim>\<open>response.json\<close>.
\<close>

datatype exn =
    ConnectionError
  | Timeout
  | HTTPError
  | JSONDecodeError
  | KeyError pyval
  | IndexError
  | TypeError
  | ValueError
  | FileNotFoundError
  | PermissionError
  | IsADirectoryError

fun is_RequestException :: "exn \<Rightarrow> bool" where
  "is_RequestException ConnectionError = True"
| "is_RequestException Timeout = True"
| "is_RequestException HTTPError = True"
| "is_RequestException JSONDecodeError = True"
| "is_RequestException _ = False"

fun is_KeyError :: "exn \<Rightarrow> bool" where
  "is_KeyError (KeyError _) = True"
| "is_KeyError _ = False"

text \<open>
  What a run does besides returning: each \<^verbatim>\<open>print\<close> of the module, each
  \<^verbatim>\<open>requests.get\<close> with its URL, and each \<^verbatim>\<open>time.sleep\<close> with its duration.
\<close>

datatype event =
    Print_processing nat
  | Print_progress nat nat string
  | Print_no_smiles string
  | Print_error string exn
  | Print_file_not_found string
  | Http_get string
  | Sleep rat

fun is_Http_get :: "event \<Rightarrow> bool" where
  "is_Http_get (Http_get _) = True"
| "is_Http_get _ = False"


text \<open>An outcome is an escaping exception (\<open>Inl\<close>) or a returned value (\<open>Inr\<close>).\<close>

definition bindr :: "exn + 'a \<Rightarrow> ('a \<Rightarrow> exn + 'b) \<Rightarrow> exn + 'b" where
  "bindr m f = (case m of Inl e \<Rightarrow> Inl e | Inr v \<Rightarrow> f v)"

subsection \<open>Truth value, subscripting and membership\<close>

fun truthy :: "pyval \<Rightarrow> bool" where
  "truthy VNone = False"
| "truthy (VBool b) = b"
| "truthy (VInt n) = (n \<noteq> 0)"
| "truthy (VFloat r) = (r \<noteq> 0)"
| "truthy (VStr s) = (s \<noteq> [])"
| "truthy (VList xs) = (xs \<noteq> [])"
| "truthy (VDict d) = (d \<noteq> [])"

text \<open>\<^verbatim>\<open>v[k]\<close> for a string \<open>k\<close>: only a dictionary accepts a string subscript.\<close>

fun getitem_str :: "pyval \<Rightarrow> string \<Rightarrow> exn + pyval" where
  "getitem_str (VDict d) k =
     (case map_of d k of None \<Rightarrow> Inl (KeyError (VStr k)) | Some v \<Rightarrow> Inr v)"
| "getitem_str _ k = Inl TypeError"

text \<open>\<^verbatim>\<open>v[0]\<close>: lists and strings are indexed, a dictionary has no key \<open>0\<close>.\<close>

fun getitem_0 :: "pyval \<Rightarrow> exn + pyval" where
  "getitem_0 (VList xs) = (case xs of [] \<Rightarrow> Inl IndexError | x # _ \<Rightarrow> Inr x)"
| "getitem_0 (VStr s) = (case s of [] \<Rightarrow> Inl IndexError | c # _ \<Rightarrow> Inr (VStr [c]))"
| "getitem_0 (VDict d) = Inl (KeyError (VInt 0))"
| "getitem_0 _ = Inl TypeError"

fun starts_with :: "string \<Rightarrow> string \<Rightarrow> bool" where
  "starts_with [] s = True"
| "starts_with (c # k) [] = False"
| "starts_with (c # k) (d # s) = (c = d \<and> starts_with k s)"

fun substring :: "string \<Rightarrow> string \<Rightarrow> bool" where
  "substring k [] = (k = [])"
| "substring k (c # s) = (starts_with k (c # s) \<or> substring k s)"

text \<open>
  \<^verbatim>\<open>k in v\<close> for a string \<open>k\<close>: a key of a dictionary, an element of a list, a
  substring of a string; the other values are not iterable.
\<close>

fun py_in :: "string \<Rightarrow> pyval \<Rightarrow> exn + bool" where
  "py_in k (VDict d) = Inr (map_of d k \<noteq> None)"
| "py_in k (VList xs) = Inr (VStr k \<in> set xs)"
| "py_in k (VStr s) = Inr (substring k s)"
| "py_in k _ = Inl TypeError"

subsection \<open>\<^verbatim>\<open>urllib.parse.quote\<close> with its default \<^verbatim>\<open>safe='/'\<close>\<close>

definition is_always_safe :: "char \<Rightarrow> bool" where
  "is_always_safe c \<longleftrightarrow>
     c \<in> set ''ABCDEFGHIJKLMNOPQRSTUVWXYZabcdefghijklmnopqrstuvwxyz0123456789_.-~''"

definition utf8_encode_char :: "char \<Rightarrow> string" where
  "utf8_encode_char c =
     (let n = (of_char c :: nat)
      in if n < 128 then [c] else [char_of (192 + n div 64), char_of (128 + n mod 64)])"

definition hex_digit :: "nat \<Rightarrow> char" where
  "hex_digit n = ''0123456789ABCDEF'' ! n"

definition quote_byte :: "char \<Rightarrow> string" where
  "quote_byte b =
     (if is_always_safe b \<or> b = CHR ''/'' then [b]
      else [CHR ''%'', hex_digit ((of_char b :: nat) div 16), hex_digit ((of_char b :: nat) mod 16)])"

definition quote :: "string \<Rightarrow> string" where
  "quote s = concat (map quote_byte (concat (map utf8_encode_char s)))"

section \<open>The environment\<close>

text \<open>
  A response of the remote service is seen through the two calls the module makes on
  it: \<^verbatim>\<open>raise_for_status()\<close>, which either passes or raises (the library raises
  \<^verbatim>\<open>HTTPError\<close> for the 4xx and 5xx statuses), and \<^verbatim>\<open>json()\<close>, which either
  raises or yields the decoded value.
\<close>

datatype response = Response (raise_for_status: "exn option") (json: "exn + pyval")

datatype http_outcome = Get_raises exn | Got response

text \<open>
  The runtime around the module: the remote service behind \<^verbatim>\<open>requests.get\<close>, with a
  state of its own so that it may answer the same URL differently over time; Python's
  \<^verbatim>\<open>str()\<close>, which formats the identifier inside the second URL; and the file system
  behind \<^verbatim>\<open>open\<close>, which yields the lines of a file or raises.
\<close>

record 's runtime =
  requests_get :: "string \<Rightarrow> 's \<Rightarrow> http_outcome \<times> 's"
  format_value :: "pyval \<Rightarrow> string"
  open_lines :: "string \<Rightarrow> exn + string list"

text \<open>\<^verbatim>\<open>time.sleep\<close> refuses a negative duration.\<close>

definition sleep :: "rat \<Rightarrow> exn + unit" where
  "sleep d = (if d < 0 then Inl ValueError else Inr ())"

section \<open>\<^verbatim>\<open>get_smiles_from_pubchem\<close>\<close>

definition base_url :: string where
  "base_url = ''https://pubchem.ncbi.nlm.nih.gov/rest/pug/compound/name''"

definition cid_url :: "string \<Rightarrow> string" where
  "cid_url compound_name = base_url @ ''/'' @ quote compound_name @ ''/cids/JSON''"

definition smiles_url :: "string \<Rightarrow> string" where
  "smiles_url cid =
     ''https://pubchem.ncbi.nlm.nih.gov/rest/pug/compound/cid/'' @ cid
       @ ''/property/CanonicalSMILES/JSON''"

text \<open>
  Lines 31-33 and 40-42: the value of \<^verbatim>\<open>response.json()\<close> once \<^verbatim>\<open>requests.get\<close>
  and \<^verbatim>\<open>raise_for_status\<close> have passed.
\<close>

definition response_json :: "http_outcome \<Rightarrow> exn + pyval" where
  "response_json out =
     (case out of
        Get_raises e \<Rightarrow> Inl e
      | Got r \<Rightarrow> (case raise_for_status r of Some e \<Rightarrow> Inl e | None \<Rightarrow> json r))"

text \<open>Line 36: \<^verbatim>\<open>data['IdentifierList']['CID'][0]\<close>.\<close>

definition first_cid :: "pyval \<Rightarrow> exn + pyval" where
  "first_cid data =
     bindr (getitem_str data ''IdentifierList'') (\<lambda>a. bindr (getitem_str a ''CID'') getitem_0)"

text \<open>Line 45: \<^verbatim>\<open>smiles_data['PropertyTable']['Properties'][0]\<close>.\<close>

definition first_properties :: "pyval \<Rightarrow> exn + pyval" where
  "first_properties smiles_data =
     bindr (getitem_str smiles_data ''PropertyTable'')
       (\<lambda>a. bindr (getitem_str a ''Properties'') getitem_0)"

text \<open>Lines 46-53: the choice between the two keys, with the diagnostic of line 51.\<close>

definition select_smiles :: "string \<Rightarrow> pyval \<Rightarrow> (exn + pyval) \<times> event list" where
  "select_smiles compound_name properties =
     (case py_in ''CanonicalSMILES'' properties of
        Inl e \<Rightarrow> (Inl e, [])
      | Inr True \<Rightarrow> (getitem_str properties ''CanonicalSMILES'', [])
      | Inr False \<Rightarrow>
          (case py_in ''ConnectivitySMILES'' properties of
             Inl e \<Rightarrow> (Inl e, [])
           | Inr True \<Rightarrow> (getitem_str properties ''ConnectivitySMILES'', [])
           | Inr False \<Rightarrow> (Inr VNone, [Print_no_smiles compound_name])))"

text \<open>Lines 27-36: the identifier lookup, one request.\<close>

definition identifier_lookup ::
  "'s runtime \<Rightarrow> string \<Rightarrow> 's \<Rightarrow> (exn + pyval) \<times> event list \<times> 's" where
  "identifier_lookup rt compound_name s =
     (case requests_get rt (cid_url compound_name) s of
        (out, s1) \<Rightarrow>
          (bindr (response_json out) first_cid, [Http_get (cid_url compound_name)], s1))"

text \<open>Lines 39-53: the property lookup for the identifier found, one more request.\<close>

definition property_lookup ::
  "'s runtime \<Rightarrow> string \<Rightarrow> pyval \<Rightarrow> 's \<Rightarrow> (exn + pyval) \<times> event list \<times> 's" where
  "property_lookup rt compound_name cid s =
     (case requests_get rt (smiles_url (format_value rt cid)) s of
        (out, s2) \<Rightarrow>
          (case bindr (response_json out) first_properties of
             Inl e \<Rightarrow> (Inl e, [Http_get (smiles_url (format_value rt cid))], s2)
           | Inr properties \<Rightarrow>
               (case select_smiles compound_name properties of
                  (r, evs) \<Rightarrow> (r, Http_get (smiles_url (format_value rt cid)) # evs, s2))))"

text \<open>The body of the \<^verbatim>\<open>try\<close>, lines 27-53.\<close>

definition try_block ::
  "'s runtime \<Rightarrow> string \<Rightarrow> 's \<Rightarrow> (exn + pyval) \<times> event list \<times> 's" where
  "try_block rt compound_name s =
     (case identifier_lookup rt compound_name s of
        (Inl e, evs, s1) \<Rightarrow> (Inl e, evs, s1)
      | (Inr cid, evs, s1) \<Rightarrow>
          (case property_lookup rt compound_name cid s1 of
             (r, evs2, s2) \<Rightarrow> (r, evs @ evs2, s2)))"

text \<open>Line 55: the exceptions the \<^verbatim>\<open>except\<close> clause names.\<close>

definition caught :: "exn \<Rightarrow> bool" where
  "caught e \<longleftrightarrow> is_RequestException e \<or> is_KeyError e \<or> e = IndexError"

definition get_smiles_from_pubchem ::
  "'s runtime \<Rightarrow> string \<Rightarrow> 's \<Rightarrow> (exn + pyval) \<times> event list \<times> 's" where
  "get_smiles_from_pubchem rt compound_name s =
     (case try_block rt compound_name s of
        (Inl e, evs, s1) \<Rightarrow>
          if caught e then (Inr VNone, evs @ [Print_error compound_name e], s1)
          else (Inl e, evs, s1)
      | (Inr smiles, evs, s1) \<Rightarrow> (Inr smiles, evs, s1))"

section \<open>\<^verbatim>\<open>batch_get_smiles\<close>\<close>

text \<open>
  \<^verbatim>\<open>pd.DataFrame(records)\<close> for a list of dictionaries: the columns are the keys in
  the order in which they are first seen, and each record fills its row (a key the
  record lacks leaves the cell empty). \<^verbatim>\<open>pd.DataFrame()\<close> has neither.
\<close>

record dataframe =
  columns :: "string list"
  data :: "pyval option list list"

definition first_seen :: "string list \<Rightarrow> string list" where
  "first_seen ks = foldl (\<lambda>seen k. if k \<in> set seen then seen else seen @ [k]) [] ks"

definition DataFrame :: "(string \<times> pyval) list list \<Rightarrow> dataframe" where
  "DataFrame records =
     (let cols = first_seen (concat (map (map fst) records))
      in \<lparr>columns = cols, data = map (\<lambda>r. map (map_of r) cols) records\<rparr>)"

definition empty_DataFrame :: dataframe where
  "empty_DataFrame = \<lparr>columns = [], data = []\<rparr>"


text \<open>Lines 77-81: the dictionary appended for one compound.\<close>

definition result_row :: "string \<Rightarrow> pyval \<Rightarrow> (string \<times> pyval) list" where
  "result_row compound_name smiles =
     [(''Compound_Name'', VStr compound_name),
      (''SMILES'', smiles),
      (''Status'', VStr (if truthy smiles then ''Found'' else ''Not Found''))]"

text \<open>
  Lines 74-83: the loop, with \<open>n\<close> for \<^verbatim>\<open>len(compound_names)\<close>, \<open>i\<close> for the counter
  of \<^verbatim>\<open>enumerate\<close> and \<open>results\<close> for the list built so far.
\<close>

fun batch_loop ::
  "'s runtime \<Rightarrow> nat \<Rightarrow> rat \<Rightarrow> nat \<Rightarrow> string list \<Rightarrow> (string \<times> pyval) list list \<Rightarrow> 's
     \<Rightarrow> (exn + (string \<times> pyval) list list) \<times> event list \<times> 's" where
  "batch_loop rt n delay i [] results s = (Inr results, [], s)"
| "batch_loop rt n delay i (compound_name # rest) results s =
     (case get_smiles_from_pubchem rt compound_name s of
        (Inl e, evs, s1) \<Rightarrow> (Inl e, Print_progress i n compound_name # evs, s1)
      | (Inr smiles, evs, s1) \<Rightarrow>
          if i < n then
            (case sleep delay of
               Inl e \<Rightarrow> (Inl e, Print_progress i n compound_name # evs, s1)
             | Inr _ \<Rightarrow>
                 (case batch_loop rt n delay (i + 1) rest
                         (results @ [result_row compound_name smiles]) s1 of
                    (r, evs2, s2) \<Rightarrow>
                      (r, Print_progress i n compound_name # evs @ Sleep delay # evs2, s2)))
          else
            (case batch_loop rt n delay (i + 1) rest
                    (results @ [result_row compound_name smiles]) s1 of
               (r, evs2, s2) \<Rightarrow> (r, Print_progress i n compound_name # evs @ evs2, s2)))"

definition batch_get_smiles ::
  "'s runtime \<Rightarrow> string list \<Rightarrow> rat \<Rightarrow> 's \<Rightarrow> (exn + dataframe) \<times> event list \<times> 's" where
  "batch_get_smiles rt compound_names delay s =
     (case batch_loop rt (length compound_names) delay 1 compound_names [] s of
        (r, evs, s1) \<Rightarrow>
          (bindr r (\<lambda>results. Inr (DataFrame results)),
           Print_processing (length compound_names) # evs, s1))"

section \<open>\<^verbatim>\<open>process_compounds_from_file\<close>\<close>

text \<open>The characters below 256 that \<^verbatim>\<open>str.strip()\<close> removes.\<close>

definition is_space :: "char \<Rightarrow> bool" where
  "is_space c \<longleftrightarrow> (of_char c :: nat) \<in> set [9, 10, 11, 12, 13, 28, 29, 30, 31, 32, 133, 160]"

definition strip :: "string \<Rightarrow> string" where
  "strip s = rev (dropWhile is_space (rev (dropWhile is_space s)))"

text \<open>
  Lines 98-104. The handler of \<^verbatim>\<open>FileNotFoundError\<close> encloses the call of
  \<^verbatim>\<open>batch_get_smiles\<close> too; 1/5 is its default delay.
\<close>

definition process_compounds_from_file ::
  "'s runtime \<Rightarrow> string \<Rightarrow> 's \<Rightarrow> (exn + dataframe) \<times> event list \<times> 's" where
  "process_compounds_from_file rt filename s =
     (case open_lines rt filename of
        Inl e \<Rightarrow>
          if e = FileNotFoundError
          then (Inr empty_DataFrame, [Print_file_not_found filename], s)
          else (Inl e, [], s)
      | Inr lines \<Rightarrow>
          (case batch_get_smiles rt
                  (map strip (filter (\<lambda>line. strip line \<noteq> []) lines)) (1 / 5) s of
             (Inl e, evs, s1) \<Rightarrow>
               if e = FileNotFoundError
               then (Inr empty_DataFrame, evs @ [Print_file_not_found filename], s1)
               else (Inl e, evs, s1)
           | (Inr df, evs, s1) \<Rightarrow> (Inr df, evs, s1)))"

section \<open>Vocabulary of the statements\<close>




section \<open>Concrete runtimes\<close>

text \<open>Decimal digits of an integer, as \<^verbatim>\<open>str()\<close> prints them.\<close>

fun str_nat :: "nat \<Rightarrow> string" where
  "str_nat n =
     (if n < 10 then [''0123456789'' ! n]
      else str_nat (n div 10) @ [''0123456789'' ! (n mod 10)])"

declare str_nat.simps [simp del]

definition str_int :: "int \<Rightarrow> string" where
  "str_int k = (if k < 0 then CHR ''-'' # str_nat (nat (- k)) else str_nat (nat k))"

text \<open>\<^verbatim>\<open>str()\<close> on the scalars that the examples below put into a URL.\<close>

definition format_scalar :: "pyval \<Rightarrow> string" where
  "format_scalar v =
     (case v of
        VInt k \<Rightarrow> str_int k
      | VStr s \<Rightarrow> s
      | VNone \<Rightarrow> ''None''
      | VBool b \<Rightarrow> (if b then ''True'' else ''False'')
      | _ \<Rightarrow> [])"

text \<open>
  A service that plays back a script: each request takes the next outcome, and the
  connection fails once the script is over.
\<close>

fun scripted :: "string \<Rightarrow> http_outcome list \<Rightarrow> http_outcome \<times> http_outcome list" where
  "scripted url [] = (Get_raises ConnectionError, [])"
| "scripted url (out # outs) = (out, outs)"

definition scripted_runtime :: "(string \<Rightarrow> exn + string list) \<Rightarrow> http_outcome list runtime" where
  "scripted_runtime files =
     \<lparr>requests_get = scripted, format_value = format_scalar, open_lines = files\<rparr>"

text \<open>A machine without network: every request fails to connect.\<close>

definition offline_runtime :: "(string \<Rightarrow> exn + string list) \<Rightarrow> unit runtime" where
  "offline_runtime files =
     \<lparr>requests_get = (\<lambda>url s. (Get_raises ConnectionError, s)),
      format_value = format_scalar, open_lines = files\<rparr>"

definition no_files :: "string \<Rightarrow> exn + string list" where
  "no_files path = Inl FileNotFoundError"

definition ok :: "pyval \<Rightarrow> http_outcome" where
  "ok v = Got (Response None (Inr v))"

text \<open>The two replies of the end-to-end scenario for mesitylene.\<close>

definition cid_reply :: pyval where
  "cid_reply = VDict [(''IdentifierList'', VDict [(''CID'', VList [VInt 7583])])]"

definition smiles_reply :: "pyval \<Rightarrow> pyval" where
  "smiles_reply v =
     VDict [(''PropertyTable'',
       VDict [(''Properties'', VList [VDict [(''CID'', VInt 7583), (''CanonicalSMILES'', v)]])])]"


text \<open>A file of three blank lines.\<close>

definition blank_file :: "string \<Rightarrow> exn + string list" where
  "blank_file path = Inr [[CHR 0x0A], ''  '' @ [CHR 0x0A], [CHR 0x09, CHR 0x0A]]"


text \<open>What the specification expects of a resolved value.\<close>

definition is_nonempty_str :: "pyval \<Rightarrow> bool" where
  "is_nonempty_str v = (case v of VStr s \<Rightarrow> s \<noteq> [] | _ \<Rightarrow> False)"


text \<open>The structure of mesitylene.\<close>

definition mesitylene_smiles :: string where
  "mesitylene_smiles = ''CC1=CC(=CC(=C1)C)C''"

text \<open>Identifier replies whose list is empty, or is \<^verbatim>\<open>null\<close>.\<close>

definition empty_cid_reply :: pyval where
  "empty_cid_reply = VDict [(''IdentifierList'', VDict [(''CID'', VList [])])]"

definition null_cid_reply :: pyval where
  "null_cid_reply = VDict [(''IdentifierList'', VDict [(''CID'', VNone)])]"

text \<open>A file system that refuses access.\<close>

definition denied :: "string \<Rightarrow> exn + string list" where
  "denied path = Inl PermissionError"



section \<open>Properties\<close>

subsection \<open>Events of one lookup\<close>

lemma bindr_simps [simp]: "bindr (Inl e) f = Inl e" "bindr (Inr v) f = f v"
  by (simp_all add: bindr_def)


lemma identifier_lookup_events: "fst (snd (identifier_lookup rt name s)) = [Http_get (cid_url name)]"
  by (simp add: identifier_lookup_def split: prod.splits)






lemma get_smiles_lookup_failed:
  assumes "identifier_lookup rt name s = (Inl e, evs, s1)"
  shows "get_smiles_from_pubchem rt name s =
     (if caught e then (Inr VNone, [Http_get (cid_url name), Print_error name e], s1)
      else (Inl e, [Http_get (cid_url name)], s1))"
proof -
  have "evs = [Http_get (cid_url name)]"
    using identifier_lookup_events [of rt name s] assms by simp
  with assms show ?thesis
    by (simp add: get_smiles_from_pubchem_def try_block_def)
qed


subsection \<open>Escaping of the name\<close>

















subsection \<open>The choice between the two keys\<close>

lemma select_smiles_dict:
  "fst (select_smiles name (VDict props)) =
     (case map_of props ''CanonicalSMILES'' of
        Some v \<Rightarrow> Inr v
      | None \<Rightarrow> (case map_of props ''ConnectivitySMILES'' of Some v \<Rightarrow> Inr v | None \<Rightarrow> Inr VNone))"
  by (auto simp: select_smiles_def split: option.splits)


lemma select_smiles_value:
  assumes "fst (select_smiles name properties) = Inr v" and "v \<noteq> VNone"
  shows "\<exists>props. properties = VDict props
     \<and> (map_of props ''CanonicalSMILES'' = Some v
        \<or> map_of props ''CanonicalSMILES'' = None \<and> map_of props ''ConnectivitySMILES'' = Some v)"
proof (cases properties)
  case (VDict props)
  with assms show ?thesis
    by (auto simp: select_smiles_dict split: option.splits)
qed (use assms in \<open>auto simp: select_smiles_def split: if_splits bool.splits\<close>)


lemma get_smiles_unfold:
  assumes "identifier_lookup rt name s = (Inr cid, evs1, s1)"
    and "requests_get rt (smiles_url (format_value rt cid)) s1 = (out, s2)"
    and "response_json out = Inr smiles_data"
    and "first_properties smiles_data = Inr properties"
  shows "fst (get_smiles_from_pubchem rt name s) =
     (case fst (select_smiles name properties) of
        Inl e \<Rightarrow> if caught e then Inr VNone else Inl e
      | Inr v \<Rightarrow> Inr v)"
proof -
  obtain r evs where sel: "select_smiles name properties = (r, evs)"
    by (cases "select_smiles name properties") auto
  have "property_lookup rt name cid s1 = (r, Http_get (smiles_url (format_value rt cid)) # evs, s2)"
    by (simp add: property_lookup_def assms(2-4) sel)
  then have "try_block rt name s = (r, evs1 @ Http_get (smiles_url (format_value rt cid)) # evs, s2)"
    by (simp add: try_block_def assms(1))
  then show ?thesis
    by (cases r) (simp_all add: get_smiles_from_pubchem_def sel)
qed


subsection \<open>The loop of \<^verbatim>\<open>batch_get_smiles\<close>\<close>





subsection \<open>The table built from the rows\<close>


lemma keys_result_row: "map fst (result_row name smiles) = [''Compound_Name'', ''SMILES'', ''Status'']"
  by (simp add: result_row_def)





subsection \<open>Runs of the concrete runtimes\<close>




lemma scripted_lookup:
  "identifier_lookup (scripted_runtime files) name (ok cid_reply # script)
     = (Inr (VInt 7583), [Http_get (cid_url name)], script)"
  by (simp add: identifier_lookup_def scripted_runtime_def ok_def response_json_def
      cid_reply_def first_cid_def)


lemma str_nat_7583: "str_nat 7583 = ''7583''"
  by (simp add: str_nat.simps)


lemma format_7583: "format_value (scripted_runtime files) (VInt 7583) = ''7583''"
  by (simp add: scripted_runtime_def format_scalar_def str_int_def str_nat_7583)


lemma scripted_get:
  "requests_get (scripted_runtime files) url (out # script) = (out, script)"
  by (simp add: scripted_runtime_def)


lemma first_properties_reply:
  "first_properties (VDict [(''PropertyTable'', VDict [(''Properties'', VList [p])])]) = Inr p"
  by (simp add: first_properties_def)


lemma first_cid_absent:
  "first_cid (VDict []) = Inl (KeyError (VStr ''IdentifierList''))"
  "first_cid (VDict [(''IdentifierList'', VDict [])]) = Inl (KeyError (VStr ''CID''))"
  "first_cid empty_cid_reply = Inl IndexError"
  "first_cid null_cid_reply = Inl TypeError"
  by (simp_all add: first_cid_def empty_cid_reply_def null_cid_reply_def)


lemma scripted_found:
  "get_smiles_from_pubchem (scripted_runtime files) name (ok cid_reply # ok (smiles_reply v) # script)
     = (Inr v, [Http_get (cid_url name), Http_get (smiles_url ''7583'')], script)"
proof -
  let ?rt = "scripted_runtime files"
  have "select_smiles name (VDict [(''CID'', VInt 7583), (''CanonicalSMILES'', v)]) = (Inr v, [])"
    by (simp add: select_smiles_def)
  then have "property_lookup ?rt name (VInt 7583) (ok (smiles_reply v) # script)
      = (Inr v, [Http_get (smiles_url ''7583'')], script)"
    by (simp add: property_lookup_def scripted_get format_7583 ok_def response_json_def
        smiles_reply_def first_properties_reply)
  then show ?thesis
    by (simp add: get_smiles_from_pubchem_def try_block_def scripted_lookup)
qed




section \<open>The claims\<close>



text \<open>
  C10. For the empty list \<^verbatim>\<open>batch_get_smiles\<close> returns the table of
  \<^verbatim>\<open>pd.DataFrame([])\<close>: no row and no column at all, not the three columns
  \<^verbatim>\<open>Compound_Name\<close>, \<^verbatim>\<open>SMILES\<close>, \<^verbatim>\<open>Status\<close> above zero rows; this is what
  \<^verbatim>\<open>process_compounds_from_file\<close> hands on for a file that holds blank lines only.
\<close>

theorem batch_get_smiles_empty:
  "batch_get_smiles rt [] delay s = (Inr empty_DataFrame, [Print_processing 0], s)
   \<and> columns empty_DataFrame = [] \<and> data empty_DataFrame = []
   \<and> columns empty_DataFrame \<noteq> [''Compound_Name'', ''SMILES'', ''Status'']
   \<and> ((\<exists>lines. open_lines rt filename = Inr lines \<and> (\<forall>line\<in>set lines. strip line = [])) \<longrightarrow>
        process_compounds_from_file rt filename s
          = (Inr empty_DataFrame, [Print_processing 0], s))"
proof -
  have b: "batch_get_smiles rt [] d s = (Inr empty_DataFrame, [Print_processing 0], s)" for d
    by (simp add: batch_get_smiles_def DataFrame_def first_seen_def empty_DataFrame_def)
  have "process_compounds_from_file rt filename s = (Inr empty_DataFrame, [Print_processing 0], s)"
    if "open_lines rt filename = Inr lines" and "\<forall>line\<in>set lines. strip line = []" for lines
  proof -
    from that(2) have "filter (\<lambda>line. strip line \<noteq> []) lines = []"
      by (simp add: filter_empty_conv)
    with that(1) b show ?thesis
      by (simp add: process_compounds_from_file_def)
  qed
  with b show ?thesis
    by (auto simp: empty_DataFrame_def)
qed

theorem batch_get_smiles_empty_witness:
  "(\<exists>lines. open_lines (offline_runtime blank_file) ''compound_list.txt'' = Inr lines
      \<and> (\<forall>line\<in>set lines. strip line = []))
   \<and> process_compounds_from_file (offline_runtime blank_file) ''compound_list.txt'' ()
       = (Inr empty_DataFrame, [Print_processing 0], ())
   \<and> batch_get_smiles (offline_runtime blank_file) [] (1 / 5) ()
       = (Inr empty_DataFrame, [Print_processing 0], ())"
  using batch_get_smiles_empty [of "offline_runtime blank_file" "1 / 5" "()" "''compound_list.txt''"]
  by (simp add: offline_runtime_def blank_file_def strip_def is_space_def)



text \<open>
  C4. Once the identifier lookup has succeeded and the second response has a first
  property record that is a dictionary: if the record has the key
  \<^verbatim>\<open>CanonicalSMILES\<close>, \<^verbatim>\<open>get_smiles_from_pubchem\<close> returns its value verbatim;
  only if that key is absent does it return the value of \<^verbatim>\<open>ConnectivitySMILES\<close>;
  and if neither key is present it returns \<^verbatim>\<open>None\<close>.
\<close>

theorem canonical_smiles_preferred:
  assumes "identifier_lookup rt compound_name s = (Inr cid, evs1, s1)"
    and "requests_get rt (smiles_url (format_value rt cid)) s1 = (out, s2)"
    and "response_json out = Inr smiles_data"
    and "first_properties smiles_data = Inr (VDict props)"
  shows "fst (get_smiles_from_pubchem rt compound_name s) =
     (case map_of props ''CanonicalSMILES'' of
        Some v \<Rightarrow> Inr v
      | None \<Rightarrow> (case map_of props ''ConnectivitySMILES'' of Some v \<Rightarrow> Inr v | None \<Rightarrow> Inr VNone))"
  using get_smiles_unfold [OF assms] select_smiles_dict [of compound_name props]
  by (auto split: option.splits)


theorem canonical_smiles_preferred_witness:
  "identifier_lookup (scripted_runtime no_files) ''mesitylene''
       [ok cid_reply, ok (smiles_reply (VStr mesitylene_smiles))]
     = (Inr (VInt 7583), [Http_get (cid_url ''mesitylene'')],
        [ok (smiles_reply (VStr mesitylene_smiles))])
   \<and> requests_get (scripted_runtime no_files)
         (smiles_url (format_value (scripted_runtime no_files) (VInt 7583)))
         [ok (smiles_reply (VStr mesitylene_smiles))]
       = (ok (smiles_reply (VStr mesitylene_smiles)), [])
   \<and> response_json (ok (smiles_reply (VStr mesitylene_smiles)))
       = Inr (smiles_reply (VStr mesitylene_smiles))
   \<and> first_properties (smiles_reply (VStr mesitylene_smiles))
       = Inr (VDict [(''CID'', VInt 7583), (''CanonicalSMILES'', VStr mesitylene_smiles)])
   \<and> fst (get_smiles_from_pubchem (scripted_runtime no_files) ''mesitylene''
         [ok cid_reply, ok (smiles_reply (VStr mesitylene_smiles))])
       = Inr (VStr ''CC1=CC(=CC(=C1)C)C'')"
proof -
  let ?rt = "scripted_runtime no_files"
  let ?reply = "smiles_reply (VStr mesitylene_smiles)"
  have h1: "identifier_lookup ?rt ''mesitylene'' [ok cid_reply, ok ?reply]
      = (Inr (VInt 7583), [Http_get (cid_url ''mesitylene'')], [ok ?reply])"
    by (rule scripted_lookup)
  have h2: "requests_get ?rt (smiles_url (format_value ?rt (VInt 7583))) [ok ?reply]
      = (ok ?reply, [])"
    by (rule scripted_get)
  have h3: "response_json (ok ?reply) = Inr ?reply"
    by (simp add: ok_def response_json_def)
  have h4: "first_properties ?reply
      = Inr (VDict [(''CID'', VInt 7583), (''CanonicalSMILES'', VStr mesitylene_smiles)])"
    by (simp add: smiles_reply_def first_properties_reply)
  have "fst (get_smiles_from_pubchem ?rt ''mesitylene'' [ok cid_reply, ok ?reply])
      = Inr (VStr ''CC1=CC(=CC(=C1)C)C'')"
    using canonical_smiles_preferred [OF h1 h2 h3 h4] by (simp add: mesitylene_smiles_def)
  with h1 h2 h3 h4 show ?thesis by simp
qed

text \<open>
  C5. Whenever the identifier lookup of \<^verbatim>\<open>get_smiles_from_pubchem\<close> fails, because
  \<^verbatim>\<open>requests.get\<close> raises (network error, timeout), \<^verbatim>\<open>raise_for_status\<close> raises
  (error status), the body does not decode, or the list of identifiers is absent or
  empty, the only request of the call is the identifier request: the property request
  is never issued, and the service is left as the first request left it.
\<close>

theorem failed_lookup_stops:
  assumes "requests_get rt (cid_url compound_name) s = (out, s1)"
    and "(\<exists>e. out = Get_raises e)
       \<or> (\<exists>r e. out = Got r \<and> raise_for_status r = Some e)
       \<or> (\<exists>r e. out = Got r \<and> raise_for_status r = None \<and> json r = Inl e)
       \<or> (\<exists>r data e. out = Got r \<and> raise_for_status r = None \<and> json r = Inr data
             \<and> first_cid data = Inl e)"
  shows "filter is_Http_get (fst (snd (get_smiles_from_pubchem rt compound_name s)))
           = [Http_get (cid_url compound_name)]
       \<and> snd (snd (get_smiles_from_pubchem rt compound_name s)) = s1"
proof -
  from assms(2) obtain e where "bindr (response_json out) first_cid = Inl e"
    by (auto simp: response_json_def)
  with assms(1) have "identifier_lookup rt compound_name s
      = (Inl e, [Http_get (cid_url compound_name)], s1)"
    by (simp add: identifier_lookup_def)
  from get_smiles_lookup_failed [OF this] show ?thesis
    by simp
qed


theorem failed_lookup_stops_witness:
  "requests_get (scripted_runtime no_files) (cid_url ''unobtainium'')
       [ok empty_cid_reply, ok (smiles_reply (VStr mesitylene_smiles))]
     = (ok empty_cid_reply, [ok (smiles_reply (VStr mesitylene_smiles))])
   \<and> (\<exists>r data e. ok empty_cid_reply = Got r \<and> raise_for_status r = None \<and> json r = Inr data
         \<and> first_cid data = Inl e)
   \<and> filter is_Http_get (fst (snd (get_smiles_from_pubchem (scripted_runtime no_files)
         ''unobtainium'' [ok empty_cid_reply, ok (smiles_reply (VStr mesitylene_smiles))])))
       = [Http_get (cid_url ''unobtainium'')]
   \<and> snd (snd (get_smiles_from_pubchem (scripted_runtime no_files)
         ''unobtainium'' [ok empty_cid_reply, ok (smiles_reply (VStr mesitylene_smiles))]))
       = [ok (smiles_reply (VStr mesitylene_smiles))]"
proof -
  let ?rt = "scripted_runtime no_files"
  let ?script = "[ok empty_cid_reply, ok (smiles_reply (VStr mesitylene_smiles))]"
  have h1: "requests_get ?rt (cid_url ''unobtainium'') ?script
      = (ok empty_cid_reply, [ok (smiles_reply (VStr mesitylene_smiles))])"
    by (rule scripted_get)
  have h2: "\<exists>r data e. ok empty_cid_reply = Got r \<and> raise_for_status r = None
      \<and> json r = Inr data \<and> first_cid data = Inl e"
    by (simp add: ok_def first_cid_absent)
  from failed_lookup_stops [OF h1] h2 h1 show ?thesis
    by simp
qed


text \<open>
  C2. The claim that no exception escapes \<^verbatim>\<open>get_smiles_from_pubchem\<close> fails on the
  code: the handler of line 55 names \<^verbatim>\<open>RequestException\<close>, \<^verbatim>\<open>KeyError\<close> and
  \<^verbatim>\<open>IndexError\<close> only. When the identifier reply holds \<^verbatim>\<open>null\<close> in place of the
  list, line 36 raises \<^verbatim>\<open>TypeError\<close>, which leaves the function and then
  \<^verbatim>\<open>batch_get_smiles\<close>.
\<close>

theorem null_cid_list_escapes:
  "get_smiles_from_pubchem (scripted_runtime no_files) ''mesitylene'' [ok null_cid_reply]
     = (Inl TypeError, [Http_get (cid_url ''mesitylene'')], [])
   \<and> fst (batch_get_smiles (scripted_runtime no_files) [''mesitylene''] (1 / 5) [ok null_cid_reply])
     = Inl TypeError"
proof -
  have l: "identifier_lookup (scripted_runtime no_files) ''mesitylene'' [ok null_cid_reply]
      = (Inl TypeError, [Http_get (cid_url ''mesitylene'')], [])"
    by (simp add: identifier_lookup_def scripted_get ok_def response_json_def first_cid_absent)
  have g: "get_smiles_from_pubchem (scripted_runtime no_files) ''mesitylene'' [ok null_cid_reply]
      = (Inl TypeError, [Http_get (cid_url ''mesitylene'')], [])"
    using get_smiles_lookup_failed [OF l] by (simp add: caught_def)
  then show ?thesis
    by (simp add: batch_get_smiles_def)
qed

text \<open>
  C3. The claim that \<^verbatim>\<open>get_smiles_from_pubchem\<close> returns a non-empty string or
  \<^verbatim>\<open>None\<close> fails: a record holding the empty string under \<^verbatim>\<open>CanonicalSMILES\<close>
  makes it return the empty string.
\<close>

theorem empty_smiles_returned:
  "fst (get_smiles_from_pubchem (scripted_runtime no_files) ''mesitylene''
          [ok cid_reply, ok (smiles_reply (VStr ''''))]) = Inr (VStr '''')
   \<and> \<not> is_nonempty_str (VStr '''') \<and> VStr '''' \<noteq> VNone"
  by (simp add: scripted_found is_nonempty_str_def)


text \<open>
  C3, as the code has it. Whatever \<^verbatim>\<open>get_smiles_from_pubchem\<close> returns is either
  \<^verbatim>\<open>None\<close> or, verbatim and unvalidated, the value that the first property record
  of the second response stores under \<^verbatim>\<open>CanonicalSMILES\<close> (under
  \<^verbatim>\<open>ConnectivitySMILES\<close> when the first key is absent); that value may be the empty
  string.
\<close>

theorem returned_value_verbatim:
  assumes "fst (get_smiles_from_pubchem rt compound_name s) = Inr v"
  shows "v = VNone
     \<or> (\<exists>cid evs1 s1 out s2 smiles_data props.
          identifier_lookup rt compound_name s = (Inr cid, evs1, s1)
        \<and> requests_get rt (smiles_url (format_value rt cid)) s1 = (out, s2)
        \<and> response_json out = Inr smiles_data
        \<and> first_properties smiles_data = Inr (VDict props)
        \<and> (map_of props ''CanonicalSMILES'' = Some v
           \<or> map_of props ''CanonicalSMILES'' = None
             \<and> map_of props ''ConnectivitySMILES'' = Some v))"
proof (cases "v = VNone")
  case True
  then show ?thesis by simp
next
  case False
  obtain r evs1 s1 where il: "identifier_lookup rt compound_name s = (r, evs1, s1)"
    by (cases "identifier_lookup rt compound_name s") auto
  show ?thesis
  proof (cases r)
    case (Inl e)
    with il assms False show ?thesis
      by (simp add: get_smiles_lookup_failed split: if_splits)
  next
    case (Inr cid)
    obtain out s2 where rq: "requests_get rt (smiles_url (format_value rt cid)) s1 = (out, s2)"
      by (cases "requests_get rt (smiles_url (format_value rt cid)) s1") auto
    show ?thesis
    proof (cases "bindr (response_json out) first_properties")
      case (Inl e)
      with il \<open>r = Inr cid\<close> rq assms False show ?thesis
        by (simp add: get_smiles_from_pubchem_def try_block_def property_lookup_def
            split: if_splits)
    next
      case p: (Inr properties)
      then obtain smiles_data where sd: "response_json out = Inr smiles_data"
        "first_properties smiles_data = Inr properties"
        by (cases "response_json out") auto
      from get_smiles_unfold [OF il [unfolded \<open>r = Inr cid\<close>] rq sd] assms
      have "fst (select_smiles compound_name properties) = Inr v"
        by (auto split: sum.splits if_splits simp: False)
      from select_smiles_value [OF this False] obtain props where
        "properties = VDict props"
        "map_of props ''CanonicalSMILES'' = Some v
         \<or> map_of props ''CanonicalSMILES'' = None \<and> map_of props ''ConnectivitySMILES'' = Some v"
        by auto
      with il \<open>r = Inr cid\<close> rq sd show ?thesis
        by blast
    qed
  qed
qed


theorem returned_value_verbatim_witness:
  "fst (get_smiles_from_pubchem (scripted_runtime no_files) ''mesitylene''
          [ok cid_reply, ok (smiles_reply (VStr mesitylene_smiles))]) = Inr (VStr mesitylene_smiles)
   \<and> (\<exists>cid evs1 s1 out s2 smiles_data props.
          identifier_lookup (scripted_runtime no_files) ''mesitylene''
            [ok cid_reply, ok (smiles_reply (VStr mesitylene_smiles))] = (Inr cid, evs1, s1)
        \<and> requests_get (scripted_runtime no_files)
            (smiles_url (format_value (scripted_runtime no_files) cid)) s1 = (out, s2)
        \<and> response_json out = Inr smiles_data
        \<and> first_properties smiles_data = Inr (VDict props)
        \<and> (map_of props ''CanonicalSMILES'' = Some (VStr mesitylene_smiles)
           \<or> map_of props ''CanonicalSMILES'' = None
             \<and> map_of props ''ConnectivitySMILES'' = Some (VStr mesitylene_smiles)))"
proof -
  have h: "fst (get_smiles_from_pubchem (scripted_runtime no_files) ''mesitylene''
      [ok cid_reply, ok (smiles_reply (VStr mesitylene_smiles))]) = Inr (VStr mesitylene_smiles)"
    by (simp add: scripted_found)
  from returned_value_verbatim [OF h] h show ?thesis
    by simp
qed








text \<open>
  C6. The claim that every failure to open the file ends in an empty table fails for a
  permission error: \<^verbatim>\<open>process_compounds_from_file\<close> handles \<^verbatim>\<open>FileNotFoundError\<close>
  only, so \<^verbatim>\<open>PermissionError\<close> reaches the caller.
\<close>

theorem permission_error_propagates:
  "process_compounds_from_file (offline_runtime denied) ''compound_list.txt'' ()
     = (Inl PermissionError, [], ())"
  by (simp add: process_compounds_from_file_def offline_runtime_def denied_def)


text \<open>
  C6, as the code has it. When the file does not exist (\<^verbatim>\<open>open\<close> raises
  \<^verbatim>\<open>FileNotFoundError\<close>), \<^verbatim>\<open>process_compounds_from_file\<close> emits its diagnostic and
  returns an empty table; any other failure to open the file, such as a permission
  error, is passed on to the caller without a diagnostic.
\<close>

theorem unopenable_file:
  assumes "open_lines rt filename = Inl e"
  shows "process_compounds_from_file rt filename s =
     (if e = FileNotFoundError
      then (Inr empty_DataFrame, [Print_file_not_found filename], s)
      else (Inl e, [], s))"
  using assms by (simp add: process_compounds_from_file_def)


theorem unopenable_file_witness:
  "open_lines (offline_runtime no_files) ''compound_list.txt'' = Inl FileNotFoundError
   \<and> process_compounds_from_file (offline_runtime no_files) ''compound_list.txt'' ()
       = (Inr empty_DataFrame, [Print_file_not_found ''compound_list.txt''], ())"
proof -
  have h: "open_lines (offline_runtime no_files) ''compound_list.txt'' = Inl FileNotFoundError"
    by (simp add: offline_runtime_def no_files_def)
  from unopenable_file [OF h, of "()"] h show ?thesis
    by simp
qed




end
